theory Spec2Isabelle
  imports Complex_Main
begin

section \<open>The TLS handshake benchmark of \<^verbatim>\<open>tls_benchmark/measure_tls.py\<close>\<close>

text \<open>
  The development embeds the measuring and aggregating methods of class
  \<^verbatim>\<open>TLSBenchmark\<close>: \<^verbatim>\<open>measure_latency\<close>, \<^verbatim>\<open>run_benchmark\<close> and
  \<^verbatim>\<open>analyze_results\<close>.

  Numbers. A finite Python or numpy float is modelled by the rational number it
  denotes, and float arithmetic on finite values by exact arithmetic: rounding error,
  overflow and signed zeros are outside the model. The values \<open>inf\<close>, \<open>-inf\<close> and
  \<open>nan\<close> are explicit constructors, so that a clock reading, a latency and a mean can
  be any of them. Python floats and numpy scalars differ in one operation the source
  uses: division by zero, which only \<^verbatim>\<open>analyze_results\<close> performs, on numpy scalars.
\<close>

subsection \<open>Floats\<close>

datatype np_float = Fin rat | PInf | NInf | NaN

definition signed_inf :: "rat \<Rightarrow> np_float" where
  "signed_inf x = (if 0 < x then PInf else if x < 0 then NInf else NaN)"

fun np_sub :: "np_float \<Rightarrow> np_float \<Rightarrow> np_float" where
  "np_sub (Fin x) (Fin y) = Fin (x - y)"
| "np_sub NaN b = NaN"
| "np_sub a NaN = NaN"
| "np_sub PInf PInf = NaN"
| "np_sub NInf NInf = NaN"
| "np_sub PInf b = PInf"
| "np_sub NInf b = NInf"
| "np_sub (Fin x) PInf = NInf"
| "np_sub (Fin x) NInf = PInf"

fun np_add :: "np_float \<Rightarrow> np_float \<Rightarrow> np_float" where
  "np_add (Fin x) (Fin y) = Fin (x + y)"
| "np_add NaN b = NaN"
| "np_add a NaN = NaN"
| "np_add PInf NInf = NaN"
| "np_add NInf PInf = NaN"
| "np_add PInf b = PInf"
| "np_add NInf b = NInf"
| "np_add (Fin x) PInf = PInf"
| "np_add (Fin x) NInf = NInf"

text \<open>\<^verbatim>\<open>a >= b\<close>: false as soon as one side is \<open>nan\<close>.\<close>

fun np_ge :: "np_float \<Rightarrow> np_float \<Rightarrow> bool" where
  "np_ge (Fin x) (Fin y) = (y \<le> x)"
| "np_ge NaN b = False"
| "np_ge a NaN = False"
| "np_ge PInf b = True"
| "np_ge a NInf = True"
| "np_ge NInf b = False"
| "np_ge (Fin x) PInf = False"

fun np_mul :: "np_float \<Rightarrow> np_float \<Rightarrow> np_float" where
  "np_mul (Fin x) (Fin y) = Fin (x * y)"
| "np_mul NaN b = NaN"
| "np_mul a NaN = NaN"
| "np_mul PInf (Fin y) = signed_inf y"
| "np_mul NInf (Fin y) = signed_inf (- y)"
| "np_mul (Fin x) PInf = signed_inf x"
| "np_mul (Fin x) NInf = signed_inf (- x)"
| "np_mul PInf PInf = PInf"
| "np_mul PInf NInf = NInf"
| "np_mul NInf PInf = NInf"
| "np_mul NInf NInf = PInf"

text \<open>
  Division of numpy scalars does not raise on a zero divisor: it warns and returns
  \<open>inf\<close>, \<open>-inf\<close> or \<open>nan\<close> after the sign of the dividend.
\<close>

fun np_div :: "np_float \<Rightarrow> np_float \<Rightarrow> np_float" where
  "np_div (Fin x) (Fin y) = (if y = 0 then signed_inf x else Fin (x / y))"
| "np_div NaN b = NaN"
| "np_div a NaN = NaN"
| "np_div PInf (Fin y) = (if y < 0 then NInf else PInf)"
| "np_div NInf (Fin y) = (if y < 0 then PInf else NInf)"
| "np_div (Fin x) PInf = Fin 0"
| "np_div (Fin x) NInf = Fin 0"
| "np_div PInf b = NaN"
| "np_div NInf b = NaN"

text \<open>\<^verbatim>\<open>round(x, ndigits)\<close>: to the nearest multiple of \<open>10^-ndigits\<close>, ties to even.\<close>

definition round_half_even :: "rat \<Rightarrow> int" where
  "round_half_even y =
     (let f = \<lfloor>y\<rfloor>; d = y - of_int f
      in if d < 1 / 2 then f else if 1 / 2 < d then f + 1
         else if even f then f else f + 1)"

definition np_round :: "np_float \<Rightarrow> nat \<Rightarrow> np_float" where
  "np_round x ndigits =
     (case x of
        Fin q \<Rightarrow> Fin (of_int (round_half_even (q * 10 ^ ndigits)) / 10 ^ ndigits)
      | PInf \<Rightarrow> PInf | NInf \<Rightarrow> NInf | NaN \<Rightarrow> NaN)"

subsection \<open>Data\<close>

text \<open>
  The data frame built by \<^verbatim>\<open>run_benchmark\<close> has three columns. Its latency columns
  hold what \<^verbatim>\<open>measure_latency\<close> returned.
\<close>

record data_frame =
  classic_ms :: "np_float list"
  hybrid_ms :: "np_float list"
  timestamp :: "string list"

text \<open>
  \<^verbatim>\<open>Series.mean()\<close> skips the \<open>nan\<close> entries, sums the others and divides by their
  number; it is \<open>nan\<close> when nothing is left.
\<close>

definition np_sum :: "np_float list \<Rightarrow> np_float" where
  "np_sum xs = foldr np_add xs (Fin 0)"

definition series_mean :: "np_float list \<Rightarrow> np_float" where
  "series_mean xs =
     (let ys = filter (\<lambda>x. x \<noteq> NaN) xs
      in if ys = [] then NaN else np_div (np_sum ys) (Fin (of_nat (length ys))))"

text \<open>\<^verbatim>\<open>len(df)\<close>: the number of rows.\<close>

definition len_df :: "data_frame \<Rightarrow> nat" where
  "len_df df = length (classic_ms df)"

text \<open>The fields of \<^verbatim>\<open>self\<close> the three methods read.\<close>

record tls_benchmark =
  target :: string
  output_dir :: string
  openssl_path :: string

datatype error = RuntimeError string

subsection \<open>The outside world\<close>

text \<open>
  What \<^verbatim>\<open>subprocess.run(..., timeout=timeout, check=True)\<close> does: it returns (exit
  status 0), raises \<^verbatim>\<open>CalledProcessError\<close> (another exit status) or raises
  \<^verbatim>\<open>TimeoutExpired\<close>. An attempt is the world's answer to one call of
  \<^verbatim>\<open>measure_latency\<close>: the two readings of \<^verbatim>\<open>time.perf_counter()\<close> and the outcome
  of the process; the second reading is only taken when the process returned.
  These are the two exceptions the source catches; an executable that cannot be started
  at all (an \<^verbatim>\<open>OSError\<close>, which the source lets propagate) is outside the model.
\<close>

datatype run_outcome = Completed | CalledProcessError | TimeoutExpired

record attempt =
  start_time :: np_float
  outcome :: run_outcome
  end_time :: np_float

type_synonym world = "nat \<Rightarrow> attempt"

text \<open>
  The effects of the methods, in the order they happen: the messages of the logger, the
  calls of \<^verbatim>\<open>subprocess.run\<close> with their command line and timeout, and the calls of
  \<^verbatim>\<open>time.sleep\<close>. The progress bar of \<^verbatim>\<open>tqdm\<close> is left out.
\<close>

datatype event =
    Info_Start int
  | Info_Classic
  | Info_Hybrid
  | Info_Done nat nat
  | Warning_Failed string run_outcome
  | Subprocess_Run "string list" int
  | Sleep nat

record bench_state =
  attempts_done :: nat
  events :: "event list"

definition emit :: "event \<Rightarrow> bench_state \<Rightarrow> bench_state" where
  "emit e s = s\<lparr>events := events s @ [e]\<rparr>"

subsection \<open>\<^verbatim>\<open>measure_latency\<close>\<close>

definition s_client_cmd :: "tls_benchmark \<Rightarrow> string \<Rightarrow> string list" where
  "s_client_cmd self grp =
     [openssl_path self, ''s_client'', ''-connect'', target self,
      ''-groups'', grp, ''-brief'', ''-tls1_3'']"

definition measure_latency ::
  "world \<Rightarrow> tls_benchmark \<Rightarrow> string \<Rightarrow> int \<Rightarrow> bench_state \<Rightarrow> np_float option \<times> bench_state" where
  "measure_latency w self grp timeout s =
     (let cmd = s_client_cmd self grp;
          a = w (attempts_done s);
          s1 = emit (Subprocess_Run cmd timeout) (s\<lparr>attempts_done := Suc (attempts_done s)\<rparr>)
      in case outcome a of
           Completed \<Rightarrow>
             (let latency_ms = np_mul (np_sub (end_time a) (start_time a)) (Fin 1000)
              in (if np_ge latency_ms (Fin 0) then Some latency_ms else None, s1))
         | CalledProcessError \<Rightarrow> (None, emit (Warning_Failed grp CalledProcessError) s1)
         | TimeoutExpired \<Rightarrow> (None, emit (Warning_Failed grp TimeoutExpired) s1))"

subsection \<open>\<^verbatim>\<open>run_benchmark\<close>\<close>

text \<open>
  One pass, the loop \<^verbatim>\<open>for _ in range(iterations)\<close>: it calls \<^verbatim>\<open>measure_latency\<close>
  with the default timeout of 5 seconds and appends every latency that is not
  \<^verbatim>\<open>None\<close>.
\<close>

fun latencies_loop ::
  "world \<Rightarrow> tls_benchmark \<Rightarrow> string \<Rightarrow> nat \<Rightarrow> np_float list \<Rightarrow> bench_state
     \<Rightarrow> np_float list \<times> bench_state" where
  "latencies_loop w self grp 0 acc s = (acc, s)"
| "latencies_loop w self grp (Suc n) acc s =
     (case measure_latency w self grp 5 s of
        (None, s') \<Rightarrow> latencies_loop w self grp n acc s'
      | (Some latency, s') \<Rightarrow> latencies_loop w self grp n (acc @ [latency]) s')"

text \<open>
  \<^verbatim>\<open>now\<close> is what \<^verbatim>\<open>datetime.now().isoformat()\<close> returns when the frame is built.
  \<^verbatim>\<open>range(iterations)\<close> is empty for a negative count.
\<close>

definition run_benchmark ::
  "world \<Rightarrow> tls_benchmark \<Rightarrow> string \<Rightarrow> int \<Rightarrow> bench_state \<Rightarrow> (error + data_frame) \<times> bench_state" where
  "run_benchmark w self now iterations s =
     (let s1 = emit Info_Classic (emit (Info_Start iterations) s);
          (classic_latencies, s2) = latencies_loop w self ''X25519'' (nat iterations) [] s1;
          s3 = emit Info_Hybrid (emit (Sleep 2) s2);
          (hybrid_latencies, s4) = latencies_loop w self ''X25519MLKEM768'' (nat iterations) [] s3;
          min_len = min (length classic_latencies) (length hybrid_latencies)
      in if min_len = 0 then (Inl (RuntimeError ''Aucune mesure valide obtenue''), s4)
         else (Inr \<lparr>classic_ms = take min_len classic_latencies,
                     hybrid_ms = take min_len hybrid_latencies,
                     timestamp = replicate min_len now\<rparr>,
               emit (Info_Done (length classic_latencies) (length hybrid_latencies)) s4))"

subsection \<open>\<^verbatim>\<open>analyze_results\<close>\<close>

record analysis_summary =
  classic_mean_ms :: np_float
  hybrid_mean_ms :: np_float
  delta_percent :: np_float
  sample_size :: nat

record analysis_metadata =
  md_timestamp :: string
  md_target :: string
  md_openssl_path :: string

record 'st analysis =
  summary :: analysis_summary
  statistics :: 'st
  metadata :: analysis_metadata

text \<open>
  \<^verbatim>\<open>describe\<close> stands for pandas' \<^verbatim>\<open>DataFrame.describe\<close> on the two latency columns
  followed by \<^verbatim>\<open>to_dict\<close>, and \<^verbatim>\<open>now\<close> for \<^verbatim>\<open>datetime.now().isoformat()\<close>.
\<close>

definition analyze_results ::
  "(np_float list \<Rightarrow> np_float list \<Rightarrow> 'st) \<Rightarrow> tls_benchmark \<Rightarrow> string \<Rightarrow> data_frame
     \<Rightarrow> 'st analysis" where
  "analyze_results describe self now df =
     (let stats = describe (classic_ms df) (hybrid_ms df);
          mean_classic = series_mean (classic_ms df);
          mean_hybrid = series_mean (hybrid_ms df);
          delta = np_div (np_mul (Fin 100) (np_sub mean_hybrid mean_classic)) mean_classic
      in \<lparr>summary = \<lparr>classic_mean_ms = np_round mean_classic 2,
                       hybrid_mean_ms = np_round mean_hybrid 2,
                       delta_percent = np_round delta 2,
                       sample_size = len_df df\<rparr>,
          statistics = stats,
          metadata = \<lparr>md_timestamp = now, md_target = target self,
                        md_openssl_path = openssl_path self\<rparr>\<rparr>)"

subsection \<open>What a pass should collect\<close>

text \<open>
  The measurement of one attempt, the latency it contributes, read off the world
  alone, and the latencies and failures of the \<open>n\<close> attempts that start at attempt
  \<open>k\<close>.
\<close>

definition elapsed_ms :: "attempt \<Rightarrow> np_float" where
  "elapsed_ms a = np_mul (np_sub (end_time a) (start_time a)) (Fin 1000)"

definition latency_of :: "attempt \<Rightarrow> np_float option" where
  "latency_of a =
     (if outcome a = Completed \<and> np_ge (elapsed_ms a) (Fin 0)
      then Some (elapsed_ms a) else None)"

definition pass_latencies :: "world \<Rightarrow> nat \<Rightarrow> nat \<Rightarrow> np_float list" where
  "pass_latencies w k n = List.map_filter latency_of (map w [k..<k + n])"

definition failed_count :: "world \<Rightarrow> nat \<Rightarrow> nat \<Rightarrow> nat" where
  "failed_count w k n = length (filter (\<lambda>a. latency_of a = None) (map w [k..<k + n]))"


definition is_action :: "event \<Rightarrow> bool" where
  "is_action e = (case e of Subprocess_Run cmd t \<Rightarrow> True | Sleep d \<Rightarrow> True | _ \<Rightarrow> False)"

definition init_state :: bench_state where
  "init_state = \<lparr>attempts_done = 0, events = []\<rparr>"

subsection \<open>Sample inputs\<close>

text \<open>
  A benchmark object, the most informative summary of the two columns, the answers
  of the world to single attempts, and the world that gives a list of answers in
  order and lets every later attempt run into its timeout. The last two attempts have
  a clock that reads \<open>inf\<close>: their measurements are \<open>inf\<close> and \<open>nan\<close>.
\<close>

definition demo_self :: tls_benchmark where
  "demo_self = \<lparr>target = ''localhost:4433'', output_dir = ''data/output'',
                 openssl_path = ''/usr/bin/openssl''\<rparr>"

definition both_columns ::
  "np_float list \<Rightarrow> np_float list \<Rightarrow> np_float list \<times> np_float list" where
  "both_columns cs hs = (cs, hs)"

definition handshake :: "rat \<Rightarrow> attempt" where
  "handshake ms = \<lparr>start_time = Fin 0, outcome = Completed, end_time = Fin (ms / 1000)\<rparr>"

definition timed_out :: attempt where
  "timed_out = \<lparr>start_time = Fin 0, outcome = TimeoutExpired, end_time = Fin 0\<rparr>"

definition exit_error :: attempt where
  "exit_error = \<lparr>start_time = Fin 0, outcome = CalledProcessError, end_time = Fin 0\<rparr>"




definition world_of :: "attempt list \<Rightarrow> world" where
  "world_of as i = (if i < length as then as ! i else timed_out)"

section \<open>Properties\<close>

subsection \<open>One attempt and one pass\<close>

lemma measure_latency_fst:
  "fst (measure_latency w self grp t s) = latency_of (w (attempts_done s))"
  by (cases "outcome (w (attempts_done s))")
     (simp_all add: measure_latency_def latency_of_def elapsed_ms_def Let_def)

lemma np_sum_map_Fin: "np_sum (map Fin xs) = Fin (sum_list xs)"
  by (induction xs) (simp_all add: np_sum_def)

lemma series_mean_map_Fin:
  "xs \<noteq> [] \<Longrightarrow> series_mean (map Fin xs) = Fin (sum_list xs / of_nat (length xs))"
proof -
  assume ne: "xs \<noteq> []"
  have f: "filter (\<lambda>x. x \<noteq> NaN) (map Fin xs) = map Fin xs"
    by (induction xs) simp_all
  from ne show ?thesis
    by (simp add: series_mean_def f np_sum_map_Fin Let_def)
qed

lemma attempts_done_emit [simp]: "attempts_done (emit e s) = attempts_done s"
  by (simp add: emit_def)

lemma events_emit [simp]: "events (emit e s) = events s @ [e]"
  by (simp add: emit_def)

lemma measure_latency_attempts_done:
  "attempts_done (snd (measure_latency w self grp t s)) = Suc (attempts_done s)"
  by (cases "outcome (w (attempts_done s))") (simp_all add: measure_latency_def Let_def)

lemma measure_latency_actions:
  "filter is_action (events (snd (measure_latency w self grp t s))) =
     filter is_action (events s) @ [Subprocess_Run (s_client_cmd self grp) t]"
  by (cases "outcome (w (attempts_done s))")
     (simp_all add: measure_latency_def Let_def is_action_def)


lemma pass_latencies_0 [simp]: "pass_latencies w k 0 = []"
  by (simp add: pass_latencies_def)

lemma pass_latencies_Suc:
  "pass_latencies w k (Suc n) =
     (case latency_of (w k) of None \<Rightarrow> pass_latencies w (Suc k) n
      | Some l \<Rightarrow> l # pass_latencies w (Suc k) n)"
  by (simp add: pass_latencies_def upt_conv_Cons List.map_filter_simps del: upt_Suc
        split: option.splits)

lemma failed_count_0 [simp]: "failed_count w k 0 = 0"
  by (simp add: failed_count_def)



lemma latencies_loop_fst:
  "fst (latencies_loop w self grp n acc s) = acc @ pass_latencies w (attempts_done s) n"
proof (induction n arbitrary: acc s)
  case 0
  show ?case by simp
next
  case (Suc n)
  obtain r s' where m: "measure_latency w self grp 5 s = (r, s')"
    by (cases "measure_latency w self grp 5 s")
  have r: "latency_of (w (attempts_done s)) = r"
    using measure_latency_fst [of w self grp 5 s] m by simp
  have s': "attempts_done s' = Suc (attempts_done s)"
    using measure_latency_attempts_done [of w self grp 5 s] m by simp
  show ?case
    using m r s' Suc.IH by (cases r) (simp_all add: pass_latencies_Suc)
qed

lemma latencies_loop_attempts_done:
  "attempts_done (snd (latencies_loop w self grp n acc s)) = attempts_done s + n"
proof (induction n arbitrary: acc s)
  case 0
  show ?case by simp
next
  case (Suc n)
  obtain r s' where m: "measure_latency w self grp 5 s = (r, s')"
    by (cases "measure_latency w self grp 5 s")
  have s': "attempts_done s' = Suc (attempts_done s)"
    using measure_latency_attempts_done [of w self grp 5 s] m by simp
  show ?case
    using m s' Suc.IH by (cases r) simp_all
qed

lemma latencies_loop_actions:
  "filter is_action (events (snd (latencies_loop w self grp n acc s))) =
     filter is_action (events s) @ replicate n (Subprocess_Run (s_client_cmd self grp) 5)"
proof (induction n arbitrary: acc s)
  case 0
  show ?case by simp
next
  case (Suc n)
  obtain r s' where m: "measure_latency w self grp 5 s = (r, s')"
    by (cases "measure_latency w self grp 5 s")
  have s': "filter is_action (events s') =
      filter is_action (events s) @ [Subprocess_Run (s_client_cmd self grp) 5]"
    using measure_latency_actions [of w self grp 5 s] m by simp
  show ?case
    using m s' Suc.IH by (cases r) (simp_all add: replicate_app_Cons_same)
qed


lemma min_length_0: "min (length a) (length b) = 0 \<longleftrightarrow> a = [] \<or> b = []"
  by (cases a; cases b; simp)

lemma run_benchmark_fst:
  "fst (run_benchmark w self now iterations s) =
     (if pass_latencies w (attempts_done s) (nat iterations) = []
         \<or> pass_latencies w (attempts_done s + nat iterations) (nat iterations) = []
      then Inl (RuntimeError ''Aucune mesure valide obtenue'')
      else Inr \<lparr>classic_ms =
                   take (min (length (pass_latencies w (attempts_done s) (nat iterations)))
                          (length (pass_latencies w (attempts_done s + nat iterations)
                                     (nat iterations))))
                     (pass_latencies w (attempts_done s) (nat iterations)),
                 hybrid_ms =
                   take (min (length (pass_latencies w (attempts_done s) (nat iterations)))
                          (length (pass_latencies w (attempts_done s + nat iterations)
                                     (nat iterations))))
                     (pass_latencies w (attempts_done s + nat iterations) (nat iterations)),
                 timestamp =
                   replicate
                     (min (length (pass_latencies w (attempts_done s) (nat iterations)))
                          (length (pass_latencies w (attempts_done s + nat iterations)
                                     (nat iterations))))
                     now\<rparr>)"
proof -
  define s1 where "s1 = emit Info_Classic (emit (Info_Start iterations) s)"
  define p1 where "p1 = latencies_loop w self ''X25519'' (nat iterations) [] s1"
  define s3 where "s3 = emit Info_Hybrid (emit (Sleep 2) (snd p1))"
  define p2 where "p2 = latencies_loop w self ''X25519MLKEM768'' (nat iterations) [] s3"
  have c: "fst p1 = pass_latencies w (attempts_done s) (nat iterations)"
    by (simp add: p1_def s1_def latencies_loop_fst)
  have "attempts_done s3 = attempts_done s + nat iterations"
    by (simp add: s3_def p1_def s1_def latencies_loop_attempts_done)
  then have h: "fst p2 = pass_latencies w (attempts_done s + nat iterations) (nat iterations)"
    by (simp add: p2_def latencies_loop_fst)
  have "run_benchmark w self now iterations s =
     (if min (length (fst p1)) (length (fst p2)) = 0
      then (Inl (RuntimeError ''Aucune mesure valide obtenue''), snd p2)
      else (Inr \<lparr>classic_ms = take (min (length (fst p1)) (length (fst p2))) (fst p1),
                  hybrid_ms = take (min (length (fst p1)) (length (fst p2))) (fst p2),
                  timestamp = replicate (min (length (fst p1)) (length (fst p2))) now\<rparr>,
            emit (Info_Done (length (fst p1)) (length (fst p2))) (snd p2)))"
    unfolding run_benchmark_def Let_def case_prod_beta p1_def p2_def s3_def s1_def ..
  then have "fst (run_benchmark w self now iterations s) =
     (if fst p1 = [] \<or> fst p2 = []
      then Inl (RuntimeError ''Aucune mesure valide obtenue'')
      else Inr \<lparr>classic_ms = take (min (length (fst p1)) (length (fst p2))) (fst p1),
                  hybrid_ms = take (min (length (fst p1)) (length (fst p2))) (fst p2),
                  timestamp = replicate (min (length (fst p1)) (length (fst p2))) now\<rparr>)"
    by (simp only: min_length_0 if_distrib [of fst] fst_conv)
  then show ?thesis
    by (simp only: c h)
qed

lemma run_benchmark_actions:
  "filter is_action (events (snd (run_benchmark w self now iterations s))) =
     filter is_action (events s) @
     replicate (nat iterations) (Subprocess_Run (s_client_cmd self ''X25519'') 5) @
     [Sleep 2] @
     replicate (nat iterations) (Subprocess_Run (s_client_cmd self ''X25519MLKEM768'') 5)"
  by (simp add: run_benchmark_def Let_def case_prod_beta latencies_loop_actions is_action_def)

lemma run_benchmark_attempts_done:
  "attempts_done (snd (run_benchmark w self now iterations s)) =
     attempts_done s + 2 * nat iterations"
  by (simp add: run_benchmark_def Let_def case_prod_beta latencies_loop_attempts_done)

subsection \<open>The claims\<close>

text \<open>
  C1. For every pair of non-empty columns of finite latencies, \<^verbatim>\<open>analyze_results\<close>
  reports the two means rounded to two digits, and its \<open>delta_percent\<close> is 100 times
  (hybrid mean minus classic mean) divided by the classic mean, rounded to two digits;
  where the classic mean is not zero this is a finite number.
\<close>

theorem analyze_results_delta_percent:
  assumes "cs \<noteq> []" and "hs \<noteq> []"
  shows "let mc = sum_list cs / of_nat (length cs);
             mh = sum_list hs / of_nat (length hs);
             r = summary (analyze_results describe self now
                   \<lparr>classic_ms = map Fin cs, hybrid_ms = map Fin hs, timestamp = ts\<rparr>)
         in classic_mean_ms r = np_round (Fin mc) 2
          \<and> hybrid_mean_ms r = np_round (Fin mh) 2
          \<and> delta_percent r = np_round (np_div (Fin (100 * (mh - mc))) (Fin mc)) 2
          \<and> (mc \<noteq> 0 \<longrightarrow> delta_percent r = np_round (Fin (100 * (mh - mc) / mc)) 2)"
  using assms
  by (simp add: analyze_results_def Let_def series_mean_map_Fin)

text \<open>
  C1, the scenario of the specification: classic latencies 10, 12, 11 and hybrid
  latencies 15, 16, 14 give the means 11 and 15 and \<open>delta_percent\<close> 36.36 (909/25).
\<close>

theorem analyze_results_delta_percent_witness:
  "[10, 12, 11] \<noteq> ([] :: rat list) \<and> [15, 16, 14] \<noteq> ([] :: rat list)
   \<and> sum_list [10, 12, 11] / of_nat (length [10, 12, 11 :: rat]) \<noteq> (0 :: rat)
   \<and> summary (analyze_results both_columns demo_self ''2025-07-01T12:00:00''
        \<lparr>classic_ms = map Fin [10, 12, 11], hybrid_ms = map Fin [15, 16, 14],
          timestamp = replicate 3 ''2025-07-01T11:59:00''\<rparr>)
      = \<lparr>classic_mean_ms = Fin 11, hybrid_mean_ms = Fin 15,
          delta_percent = Fin (909 / 25), sample_size = 3\<rparr>"
proof -
  let ?df = "\<lparr>classic_ms = map Fin [10, 12, 11], hybrid_ms = map Fin [15, 16, 14],
          timestamp = replicate 3 ''2025-07-01T11:59:00''\<rparr>"
  let ?r = "summary (analyze_results both_columns demo_self ''2025-07-01T12:00:00'' ?df)"
  have ne: "[10, 12, 11] \<noteq> ([] :: rat list)" "[15, 16, 14] \<noteq> ([] :: rat list)"
    by simp_all
  have m: "sum_list [10, 12, 11] / of_nat (length [10, 12, 11 :: rat]) \<noteq> (0 :: rat)"
    by simp
  have d: "np_round (Fin (100 * (sum_list [15, 16, 14] / of_nat (length [15, 16, 14 :: rat])
             - sum_list [10, 12, 11] / of_nat (length [10, 12, 11 :: rat]))
             / (sum_list [10, 12, 11] / of_nat (length [10, 12, 11 :: rat])))) 2
           = Fin (909 / 25)"
    by code_simp
  have mc: "np_round (Fin (sum_list [10, 12, 11] / of_nat (length [10, 12, 11 :: rat]))) 2 = Fin 11"
    by code_simp
  have mh: "np_round (Fin (sum_list [15, 16, 14] / of_nat (length [15, 16, 14 :: rat]))) 2 = Fin 15"
    by code_simp
  have n: "sample_size ?r = 3"
    by (simp add: analyze_results_def Let_def len_df_def)
  have "classic_mean_ms ?r = Fin 11 \<and> hybrid_mean_ms ?r = Fin 15
      \<and> delta_percent ?r = Fin (909 / 25)"
    using analyze_results_delta_percent [OF ne, where describe = both_columns
        and self = demo_self and now = "''2025-07-01T12:00:00''"
        and ts = "replicate 3 ''2025-07-01T11:59:00''"] m d mc mh
    unfolding Let_def by metis
  with n have "?r = \<lparr>classic_mean_ms = Fin 11, hybrid_mean_ms = Fin 15,
          delta_percent = Fin (909 / 25), sample_size = 3\<rparr>"
    by (cases ?r) simp
  with ne m show ?thesis by blast
qed

text \<open>
  C2, as stated, fails: with the classic column \<open>[0]\<close> (mean exactly 0) and the hybrid
  column \<open>[5]\<close>, \<^verbatim>\<open>analyze_results\<close> returns an analysis whose \<open>delta_percent\<close> is
  \<open>inf\<close>; nothing is raised.
\<close>

theorem degenerate_baseline_counterexample:
  "analyze_results both_columns demo_self ''2025-07-01T12:00:00''
     \<lparr>classic_ms = [Fin 0], hybrid_ms = [Fin 5], timestamp = [''2025-07-01T11:59:00'']\<rparr>
   = \<lparr>summary = \<lparr>classic_mean_ms = Fin 0, hybrid_mean_ms = Fin 5,
                   delta_percent = PInf, sample_size = 1\<rparr>,
       statistics = ([Fin 0], [Fin 5]),
       metadata = \<lparr>md_timestamp = ''2025-07-01T12:00:00'', md_target = ''localhost:4433'',
                    md_openssl_path = ''/usr/bin/openssl''\<rparr>\<rparr>"
  by code_simp

text \<open>
  C2, amended. For every pair of non-empty columns of finite latencies whose classic
  mean is exactly 0, \<^verbatim>\<open>analyze_results\<close> returns normally and its \<open>delta_percent\<close> is
  \<open>inf\<close> when the hybrid latencies sum to a positive number, \<open>-inf\<close> when to a negative
  one and \<open>nan\<close> when to 0.
\<close>

theorem analyze_results_zero_baseline:
  assumes "cs \<noteq> []" and "hs \<noteq> []" and "sum_list cs = 0"
  shows "delta_percent (summary (analyze_results describe self now
            \<lparr>classic_ms = map Fin cs, hybrid_ms = map Fin hs, timestamp = ts\<rparr>))
         = (if 0 < sum_list hs then PInf else if sum_list hs < 0 then NInf else NaN)"
proof -
  have n: "0 < (of_nat (length hs) :: rat)"
    using assms(2) by simp
  have "signed_inf (100 * (sum_list hs / of_nat (length hs))) = signed_inf (sum_list hs)"
    using n by (simp add: signed_inf_def zero_less_divide_iff divide_less_0_iff)
  then show ?thesis
    using assms
    by (simp add: analyze_results_def Let_def series_mean_map_Fin np_round_def signed_inf_def)
qed

text \<open>
  C2, amended, at the columns \<open>[0, 0]\<close>, \<open>[3, 4]\<close> and \<open>[0, 0]\<close>, \<open>[0, 0]\<close>.
\<close>

theorem analyze_results_zero_baseline_witness:
  "[0, 0] \<noteq> ([] :: rat list) \<and> [3, 4] \<noteq> ([] :: rat list) \<and> sum_list [0, 0 :: rat] = 0
   \<and> delta_percent (summary (analyze_results both_columns demo_self ''2025-07-01T12:00:00''
        \<lparr>classic_ms = map Fin [0, 0], hybrid_ms = map Fin [3, 4],
          timestamp = [''a'', ''b'']\<rparr>)) = PInf
   \<and> delta_percent (summary (analyze_results both_columns demo_self ''2025-07-01T12:00:00''
        \<lparr>classic_ms = map Fin [0, 0], hybrid_ms = map Fin [0, 0],
          timestamp = [''a'', ''b'']\<rparr>)) = NaN"
proof -
  have 1: "delta_percent (summary (analyze_results both_columns demo_self ''2025-07-01T12:00:00''
        \<lparr>classic_ms = map Fin [0, 0], hybrid_ms = map Fin [3, 4],
          timestamp = [''a'', ''b'']\<rparr>)) = PInf"
    using analyze_results_zero_baseline [of "[0, 0]" "[3, 4]" both_columns demo_self
          "''2025-07-01T12:00:00''" "[''a'', ''b'']"]
    by simp
  have 2: "delta_percent (summary (analyze_results both_columns demo_self ''2025-07-01T12:00:00''
        \<lparr>classic_ms = map Fin [0, 0], hybrid_ms = map Fin [0, 0],
          timestamp = [''a'', ''b'']\<rparr>)) = NaN"
    using analyze_results_zero_baseline [of "[0, 0]" "[0, 0]" both_columns demo_self
          "''2025-07-01T12:00:00''" "[''a'', ''b'']"]
    by simp
  from 1 2 show ?thesis by simp
qed

text \<open>
  C3, as stated, fails: \<^verbatim>\<open>analyze_results\<close> reads the clock into the metadata of what
  it returns, so two calls on the same frame, one second apart, return different
  values.
\<close>

theorem analyze_results_clock_counterexample:
  "analyze_results both_columns demo_self ''2025-07-01T12:00:00''
     \<lparr>classic_ms = [Fin 10], hybrid_ms = [Fin 15], timestamp = [''2025-07-01T11:59:00'']\<rparr>
   \<noteq> analyze_results both_columns demo_self ''2025-07-01T12:00:01''
     \<lparr>classic_ms = [Fin 10], hybrid_ms = [Fin 15], timestamp = [''2025-07-01T11:59:00'']\<rparr>"
  by (simp add: analyze_results_def Let_def)

text \<open>
  C3, amended. The summary and the statistics that \<^verbatim>\<open>analyze_results\<close> computes are a
  function of the data frame alone: two calls on the same frame agree on them whatever
  the clock reads and whatever the target and the path of the benchmark object are.
  The metadata of the result are the clock reading, the target and the path, and
  nothing of the frame.
\<close>

theorem analyze_results_deterministic:
  "summary (analyze_results describe self1 now1 df) =
     summary (analyze_results describe self2 now2 df)
   \<and> statistics (analyze_results describe self1 now1 df) =
     statistics (analyze_results describe self2 now2 df)
   \<and> metadata (analyze_results describe self1 now1 df) =
     \<lparr>md_timestamp = now1, md_target = target self1,
       md_openssl_path = openssl_path self1\<rparr>"
  by (simp add: analyze_results_def Let_def)

text \<open>
  C4. What the first pass collects are the successful latencies of its attempts. With
  \<open>m\<close> the minimum of the two successful counts: when \<open>m = 0\<close> the run raises
  \<^verbatim>\<open>RuntimeError("Aucune mesure valide obtenue")\<close>; otherwise it returns a frame whose
  three columns all have length \<open>m\<close>.
\<close>

theorem run_benchmark_truncates:
  "let c = pass_latencies w (attempts_done s) (nat iterations);
       h = pass_latencies w (attempts_done s + nat iterations) (nat iterations);
       m = min (length c) (length h)
   in fst (latencies_loop w self ''X25519'' (nat iterations) [] s) = c
    \<and> (if m = 0
       then fst (run_benchmark w self now iterations s) =
              Inl (RuntimeError ''Aucune mesure valide obtenue'')
       else (\<exists>df. fst (run_benchmark w self now iterations s) = Inr df
              \<and> length (classic_ms df) = m \<and> length (hybrid_ms df) = m
              \<and> length (timestamp df) = m))"
  by (simp add: run_benchmark_fst latencies_loop_fst Let_def min_length_0)

text \<open>
  C4 at two runs of two iterations: successes 2 and 1 give columns of length 1;
  successes 2 and 0 raise the error.
\<close>

theorem run_benchmark_truncates_witness:
  "length (pass_latencies (world_of [handshake 10, handshake 12, handshake 15, exit_error]) 0 2) = 2
   \<and> length (pass_latencies (world_of [handshake 10, handshake 12, handshake 15, exit_error]) 2 2) = 1
   \<and> fst (run_benchmark (world_of [handshake 10, handshake 12, handshake 15, exit_error])
            demo_self ''2025-07-01T12:00:00'' 2 init_state)
      = Inr \<lparr>classic_ms = [Fin 10], hybrid_ms = [Fin 15], timestamp = [''2025-07-01T12:00:00'']\<rparr>
   \<and> fst (run_benchmark (world_of [handshake 10, handshake 12, timed_out, exit_error])
            demo_self ''2025-07-01T12:00:00'' 2 init_state)
      = Inl (RuntimeError ''Aucune mesure valide obtenue'')"
proof -
  let ?w = "world_of [handshake 10, handshake 12, handshake 15, exit_error]"
  let ?v = "world_of [handshake 10, handshake 12, timed_out, exit_error]"
  let ?now = "''2025-07-01T12:00:00''"
  have a: "pass_latencies ?w (attempts_done init_state) (nat 2) = [Fin 10, Fin 12]" by code_simp
  have b: "pass_latencies ?w (attempts_done init_state + nat 2) (nat 2) = [Fin 15]" by code_simp
  have c: "pass_latencies ?v (attempts_done init_state) (nat 2) = [Fin 10, Fin 12]" by code_simp
  have d: "pass_latencies ?v (attempts_done init_state + nat 2) (nat 2) = []" by code_simp
  have a': "pass_latencies ?w 0 2 = [Fin 10, Fin 12]" by code_simp
  have b': "pass_latencies ?w 2 2 = [Fin 15]" by code_simp
  have "\<exists>df. fst (run_benchmark ?w demo_self ?now 2 init_state) = Inr df
          \<and> length (classic_ms df) = 1 \<and> length (hybrid_ms df) = 1 \<and> length (timestamp df) = 1"
    using run_benchmark_truncates [of ?w init_state 2 demo_self ?now]
    unfolding Let_def a b by simp
  moreover have "fst (run_benchmark ?w demo_self ?now 2 init_state)
      = Inr \<lparr>classic_ms = [Fin 10], hybrid_ms = [Fin 15], timestamp = [?now]\<rparr>"
    by code_simp
  moreover have "fst (run_benchmark ?v demo_self ?now 2 init_state)
      = Inl (RuntimeError ''Aucune mesure valide obtenue'')"
    using run_benchmark_truncates [of ?v init_state 2 demo_self ?now]
    unfolding Let_def c d by simp
  ultimately show ?thesis
    by (simp add: a' b')
qed









text \<open>
  C8. The \<^verbatim>\<open>subprocess.run\<close> and \<^verbatim>\<open>time.sleep\<close> calls of a run, in order, are: every
  classic attempt, then the sleep of 2 seconds, then every hybrid attempt. The classic
  pass consumes the first answers of the world and the run consumes twice the iteration
  count in all.
\<close>

theorem run_benchmark_passes_sequential:
  "filter is_action (events (snd (run_benchmark w self now iterations s))) =
     filter is_action (events s) @
     replicate (nat iterations) (Subprocess_Run (s_client_cmd self ''X25519'') 5) @
     [Sleep 2] @
     replicate (nat iterations) (Subprocess_Run (s_client_cmd self ''X25519MLKEM768'') 5)
   \<and> fst (latencies_loop w self ''X25519'' (nat iterations) [] s) =
       pass_latencies w (attempts_done s) (nat iterations)
   \<and> attempts_done (snd (run_benchmark w self now iterations s)) =
       attempts_done s + nat iterations + nat iterations"
  by (simp add: run_benchmark_actions run_benchmark_attempts_done latencies_loop_fst)

text \<open>
  C9, as stated, fails: two runs of two iterations, one with two failed attempts and
  one with a single failed attempt, return the same frame and so the same analysis,
  even with the two columns themselves as statistics; the analysis cannot tell the
  number of failures.
\<close>

theorem loss_rate_counterexample:
  "map_sum id (analyze_results both_columns demo_self ''2025-07-01T12:00:00'')
     (fst (run_benchmark (world_of [handshake 10, timed_out, handshake 15, timed_out])
            demo_self ''2025-07-01T11:59:00'' 2 init_state))
   = map_sum id (analyze_results both_columns demo_self ''2025-07-01T12:00:00'')
     (fst (run_benchmark (world_of [handshake 10, handshake 12, handshake 15, timed_out])
            demo_self ''2025-07-01T11:59:00'' 2 init_state))
   \<and> isl (fst (run_benchmark (world_of [handshake 10, timed_out, handshake 15, timed_out])
            demo_self ''2025-07-01T11:59:00'' 2 init_state)) = False
   \<and> failed_count (world_of [handshake 10, timed_out, handshake 15, timed_out]) 0 4 = 2
   \<and> failed_count (world_of [handshake 10, handshake 12, handshake 15, timed_out]) 0 4 = 1"
proof -
  let ?df = "\<lparr>classic_ms = [Fin 10], hybrid_ms = [Fin 15], timestamp = [''2025-07-01T11:59:00'']\<rparr>"
  have a: "fst (run_benchmark (world_of [handshake 10, timed_out, handshake 15, timed_out])
            demo_self ''2025-07-01T11:59:00'' 2 init_state) = Inr ?df"
    by code_simp
  have b: "fst (run_benchmark (world_of [handshake 10, handshake 12, handshake 15, timed_out])
            demo_self ''2025-07-01T11:59:00'' 2 init_state) = Inr ?df"
    by code_simp
  have c: "failed_count (world_of [handshake 10, timed_out, handshake 15, timed_out]) 0 4 = 2"
    by code_simp
  have d: "failed_count (world_of [handshake 10, handshake 12, handshake 15, timed_out]) 0 4 = 1"
    by code_simp
  show ?thesis
    by (simp add: a b c d)
qed

text \<open>
  C9, amended. For every run that returns a frame, the analysis reports, beside the
  means and the delta, the \<open>sample_size\<close>: the common length of the two columns, which is
  the minimum of the two successful counts. Failed and attempted counts are no part of
  the analysis.
\<close>

theorem analysis_reports_sample_size:
  assumes "fst (run_benchmark w self now iterations s) = Inr df"
  shows "sample_size (summary (analyze_results describe self' now' df)) =
           min (length (pass_latencies w (attempts_done s) (nat iterations)))
               (length (pass_latencies w (attempts_done s + nat iterations) (nat iterations)))
       \<and> sample_size (summary (analyze_results describe self' now' df)) = length (classic_ms df)
       \<and> sample_size (summary (analyze_results describe self' now' df)) = length (hybrid_ms df)"
  using assms
  by (auto simp add: run_benchmark_fst analyze_results_def len_df_def Let_def
        split: if_splits)

text \<open>
  C9, amended, at a run of two iterations with one failed hybrid attempt.
\<close>

theorem analysis_reports_sample_size_witness:
  "fst (run_benchmark (world_of [handshake 10, handshake 12, handshake 15, timed_out])
          demo_self ''2025-07-01T11:59:00'' 2 init_state)
     = Inr \<lparr>classic_ms = [Fin 10], hybrid_ms = [Fin 15], timestamp = [''2025-07-01T11:59:00'']\<rparr>
   \<and> sample_size (summary (analyze_results both_columns demo_self ''2025-07-01T12:00:00''
        \<lparr>classic_ms = [Fin 10], hybrid_ms = [Fin 15], timestamp = [''2025-07-01T11:59:00'']\<rparr>)) = 1"
proof -
  let ?df = "\<lparr>classic_ms = [Fin 10], hybrid_ms = [Fin 15], timestamp = [''2025-07-01T11:59:00'']\<rparr>"
  have b: "fst (run_benchmark (world_of [handshake 10, handshake 12, handshake 15, timed_out])
            demo_self ''2025-07-01T11:59:00'' 2 init_state) = Inr ?df"
    by code_simp
  from analysis_reports_sample_size [OF b, of both_columns demo_self "''2025-07-01T12:00:00''"] b
  show ?thesis by simp
qed

text \<open>
  C10. For every run that returns a frame, each latency column is the prefix of length
  \<open>min_len\<close> of the successful latencies of its pass in the order of the attempts,
  \<open>min_len\<close> being the minimum of the two successful counts: position \<open>i\<close> of a column
  holds the \<open>i\<close>-th success of the pass.
\<close>

theorem run_benchmark_keeps_prefix:
  assumes "fst (run_benchmark w self now iterations s) = Inr df"
  shows "let c = pass_latencies w (attempts_done s) (nat iterations);
             h = pass_latencies w (attempts_done s + nat iterations) (nat iterations);
             min_len = min (length c) (length h)
         in classic_ms df = take min_len c \<and> hybrid_ms df = take min_len h
          \<and> (\<forall>i < min_len. classic_ms df ! i = c ! i \<and> hybrid_ms df ! i = h ! i)"
  using assms
  by (auto simp add: run_benchmark_fst Let_def split: if_splits)

text \<open>
  C10 at a run of three iterations: the classic pass succeeds three times, the hybrid
  pass twice, and the frame keeps the first two classic latencies.
\<close>

theorem run_benchmark_keeps_prefix_witness:
  "fst (run_benchmark (world_of [handshake 10, handshake 12, handshake 11,
                                   timed_out, handshake 15, handshake 16])
          demo_self ''2025-07-01T11:59:00'' 3 init_state)
     = Inr \<lparr>classic_ms = [Fin 10, Fin 12], hybrid_ms = [Fin 15, Fin 16],
             timestamp = replicate 2 ''2025-07-01T11:59:00''\<rparr>
   \<and> pass_latencies (world_of [handshake 10, handshake 12, handshake 11,
                                   timed_out, handshake 15, handshake 16]) 0 3 = [Fin 10, Fin 12, Fin 11]
   \<and> pass_latencies (world_of [handshake 10, handshake 12, handshake 11,
                                   timed_out, handshake 15, handshake 16]) 3 3 = [Fin 15, Fin 16]"
proof -
  let ?w = "world_of [handshake 10, handshake 12, handshake 11,
                                   timed_out, handshake 15, handshake 16]"
  let ?df = "\<lparr>classic_ms = [Fin 10, Fin 12], hybrid_ms = [Fin 15, Fin 16],
             timestamp = replicate 2 ''2025-07-01T11:59:00''\<rparr>"
  have r: "fst (run_benchmark ?w demo_self ''2025-07-01T11:59:00'' 3 init_state) = Inr ?df"
    by code_simp
  have c: "pass_latencies ?w 0 3 = [Fin 10, Fin 12, Fin 11]" by code_simp
  have h: "pass_latencies ?w 3 3 = [Fin 15, Fin 16]" by code_simp
  from run_benchmark_keeps_prefix [OF r] r c h
  show ?thesis by (simp add: Let_def init_state_def)
qed

end
